theory Spec2Isabelle
  imports Complex_Main
begin

section \<open>JSON values, rows and tables\<close>

text \<open>
  The client talks to the backend in JSON. A JavaScript object literal, once serialised
  (properties whose value is \<open>undefined\<close> are dropped by \<open>JSON.stringify\<close>), is an
  association list in insertion order. A table row gives every column a value, SQL
  \<open>NULL\<close> being \<open>JNull\<close>. A number is the decimal number that its JSON text
  denotes.
\<close>

datatype jval = JNull | JBool bool | JNum real | JStr string

type_synonym obj = "(string \<times> jval) list"

type_synonym row = "string \<Rightarrow> jval"

text \<open>\<open>SET col = value\<close> for every property of the payload, in order.\<close>

primrec assign :: "obj \<Rightarrow> row \<Rightarrow> row" where
  "assign [] r = r"
| "assign (kv # kvs) r = assign kvs (r(fst kv := snd kv))"

text \<open>The \<open>.eq(column, value)\<close> filters of a request; \<open>NULL\<close> is equal to nothing.\<close>

definition matches :: "obj \<Rightarrow> row \<Rightarrow> bool" where
  "matches flt r = list_all (\<lambda>cv. r (fst cv) = snd cv \<and> snd cv \<noteq> JNull) flt"

record db =
  deliveries :: "row list"
  driver_locations :: "row list"
  service_requests :: "row list"

section \<open>The backend: schema constraints and row-level policies of the migrations\<close>

text \<open>
  The tables are kept with the constraints and the policies that the migrations declare for
  them. Every caller is a signed-in user, \<open>uid\<close> being \<open>auth.uid()\<close>; the rows that
  foreign keys point to are taken to exist.
\<close>

datatype pg_error =
    NetworkError
  | UniqueViolation
  | CheckViolation
  | NotNullViolation
  | RlsViolation
  | NumericOverflow
  | Unsupported

text \<open>
  What the server decides on its own for one request: whether the request and its reply
  get through, the value of \<open>gen_random_uuid()\<close> and the value of \<open>now()\<close>.
\<close>

datatype net_outcome = Delivered | RequestLost | ReplyLost

record senv =
  net :: net_outcome
  gen_id :: string
  server_now :: string

text \<open>
  Table \<open>deliveries\<close>:
  \<^verbatim>\<open>status text DEFAULT 'pending' CHECK (status IN ('pending', 'assigned', 'picked_up',
    'in_transit', 'delivered', 'cancelled'))\<close>, \<open>service_request_id\<close>, \<open>pickup_location\<close>
  and \<open>delivery_location\<close> are \<open>NOT NULL\<close>. A \<open>CHECK\<close> passes on \<open>NULL\<close>.
\<close>

definition delivery_statuses :: "string list" where
  "delivery_statuses =
     [''pending'', ''assigned'', ''picked_up'', ''in_transit'', ''delivered'', ''cancelled'']"

definition deliveries_status_check :: "row \<Rightarrow> bool" where
  "deliveries_status_check r =
     (r ''status'' = JNull \<or> list_ex (\<lambda>s. r ''status'' = JStr s) delivery_statuses)"

definition deliveries_not_null :: "row \<Rightarrow> bool" where
  "deliveries_not_null r =
     (r ''id'' \<noteq> JNull \<and> r ''service_request_id'' \<noteq> JNull \<and>
      r ''pickup_location'' \<noteq> JNull \<and> r ''delivery_location'' \<noteq> JNull)"

text \<open>
  \<^verbatim>\<open>CREATE POLICY "Drivers can update their assigned deliveries" ON deliveries FOR UPDATE
    TO authenticated USING (driver_id = auth.uid());\<close>
  The policy has no \<open>WITH CHECK\<close>, so the same expression is also checked on the new row.
  A row whose \<open>driver_id\<close> is \<open>NULL\<close> makes the comparison \<open>NULL\<close>, which is not true.
  (The \<open>SELECT\<close> policy of the table holds on every row this one admits.)
\<close>

definition deliveries_update_using :: "string \<Rightarrow> row \<Rightarrow> bool" where
  "deliveries_update_using uid r = (r ''driver_id'' = JStr uid)"

text \<open>
  \<open>UPDATE deliveries SET ... WHERE ...\<close> as user \<open>uid\<close>: rows the policy hides are
  silently left alone; the trigger \<open>deliveries_updated_at\<close> stamps \<open>updated_at\<close> on
  each row that is updated; a new row that fails a check aborts the statement.
\<close>

definition update_deliveries ::
  "string \<Rightarrow> string \<Rightarrow> obj \<Rightarrow> obj \<Rightarrow> row list \<Rightarrow> pg_error + row list" where
  "update_deliveries uid now vals flt tbl =
     (let hit = (\<lambda>r. matches flt r \<and> deliveries_update_using uid r);
          new = (\<lambda>r. (assign vals r)(''updated_at'' := JStr now))
      in if list_ex (\<lambda>r. hit r \<and> \<not> deliveries_update_using uid (new r)) tbl
           then Inl RlsViolation
         else if list_ex (\<lambda>r. hit r \<and> \<not> deliveries_not_null (new r)) tbl
           then Inl NotNullViolation
         else if list_ex (\<lambda>r. hit r \<and> \<not> deliveries_status_check (new r)) tbl
           then Inl CheckViolation
         else Inr (map (\<lambda>r. if hit r then new r else r) tbl))"

text \<open>
  \<^verbatim>\<open>CREATE POLICY "System can create deliveries" ON deliveries FOR INSERT
    TO authenticated WITH CHECK (true);\<close>
  Column defaults: \<open>id\<close>, \<open>status\<close>, \<open>created_at\<close>, \<open>updated_at\<close>.
\<close>

definition deliveries_defaults :: "senv \<Rightarrow> row" where
  "deliveries_defaults env =
     (\<lambda>_. JNull)(''id'' := JStr (gen_id env), ''status'' := JStr ''pending'',
       ''created_at'' := JStr (server_now env), ''updated_at'' := JStr (server_now env))"

definition insert_deliveries :: "senv \<Rightarrow> obj \<Rightarrow> row list \<Rightarrow> pg_error + row list" where
  "insert_deliveries env vals tbl =
     (let new = assign vals (deliveries_defaults env)
      in if \<not> deliveries_not_null new then Inl NotNullViolation
         else if \<not> deliveries_status_check new then Inl CheckViolation
         else if list_ex (\<lambda>r. r ''id'' = new ''id'') tbl then Inl UniqueViolation
         else Inr (tbl @ [new]))"

text \<open>
  Table \<open>service_requests\<close>: \<open>id uuid PRIMARY KEY DEFAULT gen_random_uuid()\<close>; \<open>client_id\<close>,
  \<open>merchant_id\<close> and \<open>service_id\<close> are \<open>NOT NULL\<close>; \<open>status\<close> defaults to
  \<open>'pending'\<close>; there is no other unique constraint.
  \<^verbatim>\<open>CREATE POLICY "Clients can create service requests" ON service_requests FOR INSERT
    TO authenticated WITH CHECK (client_id = auth.uid());\<close>
  The server checks the policy on the new row first, then \<open>NOT NULL\<close> and \<open>CHECK\<close>, then
  the primary key.
\<close>

definition service_requests_defaults :: "senv \<Rightarrow> row" where
  "service_requests_defaults env =
     (\<lambda>_. JNull)(''id'' := JStr (gen_id env), ''status'' := JStr ''pending'',
       ''created_at'' := JStr (server_now env), ''updated_at'' := JStr (server_now env))"

definition service_request_statuses :: "string list" where
  "service_request_statuses =
     [''pending'', ''accepted'', ''in_progress'', ''completed'', ''cancelled'']"

definition insert_service_requests ::
  "string \<Rightarrow> senv \<Rightarrow> obj \<Rightarrow> row list \<Rightarrow> pg_error + row list" where
  "insert_service_requests uid env vals tbl =
     (let new = assign vals (service_requests_defaults env)
      in if new ''client_id'' \<noteq> JStr uid then Inl RlsViolation
         else if new ''id'' = JNull \<or> new ''client_id'' = JNull \<or> new ''merchant_id'' = JNull \<or>
                 new ''service_id'' = JNull
           then Inl NotNullViolation
         else if \<not> (new ''status'' = JNull \<or>
                    list_ex (\<lambda>s. new ''status'' = JStr s) service_request_statuses)
           then Inl CheckViolation
         else if list_ex (\<lambda>r. r ''id'' = new ''id'') tbl then Inl UniqueViolation
         else Inr (tbl @ [new]))"

text \<open>
  Table \<open>driver_locations\<close>:
  \<^verbatim>\<open>id uuid PRIMARY KEY DEFAULT gen_random_uuid(),
  driver_id uuid REFERENCES profiles(id) ON DELETE CASCADE NOT NULL UNIQUE,
  latitude decimal(10,8), longitude decimal(11,8),
  is_available boolean DEFAULT false, updated_at timestamptz DEFAULT now()\<close>
  \<^verbatim>\<open>CREATE POLICY "Drivers can manage their own location" ON driver_locations FOR ALL
    TO authenticated USING (driver_id = auth.uid());\<close>
  The second policy of the table is for \<open>SELECT\<close> only and holds on every row this one
  admits.
\<close>

definition driver_locations_defaults :: "senv \<Rightarrow> row" where
  "driver_locations_defaults env =
     (\<lambda>_. JNull)(''id'' := JStr (gen_id env), ''is_available'' := JBool False,
       ''updated_at'' := JStr (server_now env))"

definition driver_locations_using :: "string \<Rightarrow> row \<Rightarrow> bool" where
  "driver_locations_using uid r = (r ''driver_id'' = JStr uid)"

text \<open>
  A value assigned to a column of type \<open>decimal(p, 8)\<close> is rounded to 8 digits after the
  point, a tie going away from zero, and must then be below \<open>10 ^ (p - 8)\<close> in absolute
  value: below 100 for \<open>latitude\<close>, below 1000 for \<open>longitude\<close>. The handlers send
  numbers or nothing for these columns; a string or a boolean there is not covered.
\<close>

definition round8 :: "real \<Rightarrow> real" where
  "round8 x = (if 0 \<le> x then real_of_int \<lfloor>x * 10 ^ 8 + 1 / 2\<rfloor> / 10 ^ 8
               else - (real_of_int \<lfloor>- x * 10 ^ 8 + 1 / 2\<rfloor> / 10 ^ 8))"

definition decimal8 :: "nat \<Rightarrow> jval \<Rightarrow> pg_error + jval" where
  "decimal8 n v =
     (case v of
        JNull \<Rightarrow> Inr JNull
      | JNum x \<Rightarrow> if \<bar>round8 x\<bar> < 10 ^ n then Inr (JNum (round8 x)) else Inl NumericOverflow
      | _ \<Rightarrow> Inl Unsupported)"

text \<open>The payload with every value converted to the type of its column.\<close>

primrec driver_locations_cast :: "obj \<Rightarrow> pg_error + obj" where
  "driver_locations_cast [] = Inr []"
| "driver_locations_cast (kv # kvs) =
     (case (if fst kv = ''latitude'' then decimal8 2 (snd kv)
            else if fst kv = ''longitude'' then decimal8 3 (snd kv)
            else Inr (snd kv)) of
        Inl e \<Rightarrow> Inl e
      | Inr v \<Rightarrow>
          (case driver_locations_cast kvs of
             Inl e \<Rightarrow> Inl e
           | Inr kvs' \<Rightarrow> Inr ((fst kv, v) # kvs')))"

text \<open>Each value of a unique column occurs in one row at most.\<close>

definition unique_col :: "string \<Rightarrow> row list \<Rightarrow> bool" where
  "unique_col c tbl = distinct (map (\<lambda>r. r c) tbl)"

text \<open>
  \<open>.upsert(values, { onConflict })\<close> is \<open>INSERT ... ON CONFLICT (target) DO UPDATE SET\<close>
  the columns of the payload. The conflict target is the unique column named by the
  \<open>onConflict\<close> option when the call passes one, and the primary key when it passes none;
  a target that has no unique index is not covered.

  The server first converts the values, then checks the policy on the proposed row, then its
  \<open>NOT NULL\<close> columns, and only then looks for a stored row with the same value in the
  target column. If there is one, the statement is an update of that row, which the policy
  must admit, and the trigger \<open>driver_locations_updated_at\<close> stamps \<open>updated_at\<close>; the
  updated row has the \<open>driver_id\<close> of the proposed one, which the policy has admitted. If
  there is none, the proposed row is inserted. Either way a duplicate in a unique column is
  a unique violation: an insert is refused when a stored row has the same value in a unique
  column that is not the conflict target.
\<close>

definition upsert_driver_locations ::
  "string \<Rightarrow> senv \<Rightarrow> obj \<Rightarrow> string option \<Rightarrow> row list \<Rightarrow> pg_error + row list" where
  "upsert_driver_locations uid env vals onConflict tbl =
     (case driver_locations_cast vals of
        Inl e \<Rightarrow> Inl e
      | Inr cvals \<Rightarrow>
          (let target = (case onConflict of None \<Rightarrow> ''id'' | Some c \<Rightarrow> c);
               new = assign cvals (driver_locations_defaults env);
               clash = (\<lambda>r. r target = new target);
               upd = (\<lambda>r. (assign cvals r)(''updated_at'' := JStr (server_now env)));
               tbl' = (if list_ex clash tbl then map (\<lambda>r. if clash r then upd r else r) tbl
                       else tbl @ [new])
           in if target \<noteq> ''id'' \<and> target \<noteq> ''driver_id'' then Inl Unsupported
              else if \<not> driver_locations_using uid new then Inl RlsViolation
              else if new ''id'' = JNull \<or> new ''driver_id'' = JNull then Inl NotNullViolation
              else if list_ex (\<lambda>r. clash r \<and> \<not> driver_locations_using uid r) tbl
                then Inl RlsViolation
              else if \<not> unique_col ''id'' tbl' \<or> \<not> unique_col ''driver_id'' tbl'
                then Inl UniqueViolation
              else Inr tbl'))"

section \<open>Requests of the client library\<close>

text \<open>
  \<open>supabase.from(table)\<close> followed by \<open>.update(values).eq(...)\<close>, \<open>.insert(values)\<close>,
  \<open>.upsert(values, options)\<close> or \<open>.select(...)\<close>. Of a read only the table is kept.
\<close>

datatype request =
    Update string obj obj
  | Insert string obj
  | Upsert string obj "string option"
  | Select string

fun backend :: "string \<Rightarrow> senv \<Rightarrow> request \<Rightarrow> db \<Rightarrow> pg_error + db" where
  "backend uid env (Update t vals flt) d =
     (if t = ''deliveries'' then
        (case update_deliveries uid (server_now env) vals flt (deliveries d) of
           Inl e \<Rightarrow> Inl e | Inr tbl \<Rightarrow> Inr (d\<lparr>deliveries := tbl\<rparr>))
      else Inl Unsupported)"
| "backend uid env (Insert t vals) d =
     (if t = ''service_requests'' then
        (case insert_service_requests uid env vals (service_requests d) of
           Inl e \<Rightarrow> Inl e | Inr tbl \<Rightarrow> Inr (d\<lparr>service_requests := tbl\<rparr>))
      else if t = ''deliveries'' then
        (case insert_deliveries env vals (deliveries d) of
           Inl e \<Rightarrow> Inl e | Inr tbl \<Rightarrow> Inr (d\<lparr>deliveries := tbl\<rparr>))
      else Inl Unsupported)"
| "backend uid env (Upsert t vals onConflict) d =
     (if t = ''driver_locations'' then
        (case upsert_driver_locations uid env vals onConflict (driver_locations d) of
           Inl e \<Rightarrow> Inl e | Inr tbl \<Rightarrow> Inr (d\<lparr>driver_locations := tbl\<rparr>))
      else Inl Unsupported)"
| "backend uid env (Select t) d = Inr d"

text \<open>
  One remote call as the client sees it: the \<open>error\<close> of the reply (\<open>None\<close> when there is
  none) and the database afterwards. A request that is lost changes nothing; a reply that is
  lost hides a statement that the server did run.
\<close>

definition remote :: "string \<Rightarrow> senv \<Rightarrow> request \<Rightarrow> db \<Rightarrow> pg_error option \<times> db" where
  "remote uid env req d =
     (case net env of
        RequestLost \<Rightarrow> (Some NetworkError, d)
      | Delivered \<Rightarrow> (case backend uid env req d of
                        Inl e \<Rightarrow> (Some e, d) | Inr d' \<Rightarrow> (None, d'))
      | ReplyLost \<Rightarrow> (case backend uid env req d of
                        Inl e \<Rightarrow> (Some NetworkError, d) | Inr d' \<Rightarrow> (Some NetworkError, d')))"

section \<open>The driver's deliveries screen\<close>

text \<open>What a handler does that can be seen from outside, in order.\<close>

datatype effect =
    Remote request
  | Alert string string
  | ConsoleError string
  | ConsoleWarn string
  | SetIsAvailable bool
  | ExecuteAction nat

text \<open>
  \<open>updateDeliveryStatus(deliveryId, status)\<close>: the payload is \<open>{ status }\<close>, to which
  \<open>actual_delivery_time\<close> is added when \<open>status === 'delivered'\<close>.
\<close>

definition updateData :: "string \<Rightarrow> string \<Rightarrow> obj" where
  "updateData status client_now =
     [(''status'', JStr status)] @
     (if status = ''delivered'' then [(''actual_delivery_time'', JStr client_now)] else [])"

definition updateDeliveryStatus_request :: "string \<Rightarrow> string \<Rightarrow> string \<Rightarrow> request" where
  "updateDeliveryStatus_request deliveryId status client_now =
     Update ''deliveries'' (updateData status client_now) [(''id'', JStr deliveryId)]"

definition updateDeliveryStatus ::
  "string \<Rightarrow> string \<Rightarrow> senv \<Rightarrow> string \<Rightarrow> string \<Rightarrow> db \<Rightarrow> effect list \<times> db" where
  "updateDeliveryStatus uid client_now env deliveryId status d =
     (let req = updateDeliveryStatus_request deliveryId status client_now
      in case remote uid env req d of
           (None, d') \<Rightarrow> ([Remote req, Remote (Select ''deliveries'')], d')
         | (Some e, d') \<Rightarrow>
             ([Remote req, ConsoleError ''Error updating delivery status:'',
               Alert ''Error'' ''Failed to update delivery status''], d'))"

text \<open>
  \<open>acceptDelivery(deliveryId)\<close>: nothing without a signed-in user; otherwise one update of
  \<open>driver_id\<close> and \<open>status\<close>, filtered by \<open>.eq('id', deliveryId)\<close> and nothing else.
  On success \<open>fetchDeliveries()\<close> is called without \<open>await\<close>: its request leaves when
  the handler has yielded, which is after the alert.
\<close>

definition acceptDelivery_request :: "string \<Rightarrow> string \<Rightarrow> request" where
  "acceptDelivery_request uid deliveryId =
     Update ''deliveries'' [(''driver_id'', JStr uid), (''status'', JStr ''assigned'')]
       [(''id'', JStr deliveryId)]"

definition acceptDelivery :: "string option \<Rightarrow> senv \<Rightarrow> string \<Rightarrow> db \<Rightarrow> effect list \<times> db" where
  "acceptDelivery user env deliveryId d =
     (case user of
        None \<Rightarrow> ([], d)
      | Some uid \<Rightarrow>
          (let req = acceptDelivery_request uid deliveryId
           in case remote uid env req d of
                (None, d') \<Rightarrow>
                  ([Remote req, Alert ''Success'' ''Delivery accepted!'',
                    Remote (Select ''deliveries'')], d')
              | (Some e, d') \<Rightarrow>
                  ([Remote req, ConsoleError ''Error accepting delivery:'',
                    Alert ''Error'' ''Failed to accept delivery''], d')))"

text \<open>
  \<open>updateDriverAvailability(available)\<close>. \<open>position\<close> is what
  \<open>Location.getCurrentPositionAsync\<close> returns when it is called (\<open>None\<close>: it threw);
  it is called only when \<open>available\<close> is true. With \<open>location = null\<close> the properties
  \<open>latitude\<close> and \<open>longitude\<close> are \<open>undefined\<close> and are not sent. The call passes
  no options to \<open>upsert\<close>.
\<close>

definition availability_payload ::
  "string \<Rightarrow> bool \<Rightarrow> (real \<times> real) option \<Rightarrow> string \<Rightarrow> obj" where
  "availability_payload uid available location client_now =
     [(''driver_id'', JStr uid)] @
     (case location of
        None \<Rightarrow> []
      | Some c \<Rightarrow> [(''latitude'', JNum (fst c)), (''longitude'', JNum (snd c))]) @
     [(''is_available'', JBool available), (''updated_at'', JStr client_now)]"

definition updateDriverAvailability ::
  "string option \<Rightarrow> bool \<Rightarrow> (real \<times> real) option \<Rightarrow> string \<Rightarrow> senv \<Rightarrow> bool \<Rightarrow> db
     \<Rightarrow> effect list \<times> db" where
  "updateDriverAvailability user locationPermission position client_now env available d =
     (case user of
        None \<Rightarrow> ([Alert ''Error'' ''Location permission is required to go online''], d)
      | Some uid \<Rightarrow>
          if \<not> locationPermission
            then ([Alert ''Error'' ''Location permission is required to go online''], d)
          else if available \<and> position = None
            then ([ConsoleError ''Error updating driver availability:'',
                   Alert ''Error'' ''Failed to update availability status''], d)
          else
            (let location = (if available then position else None);
                 req = Upsert ''driver_locations''
                         (availability_payload uid available location client_now) None
             in case remote uid env req d of
                  (None, d') \<Rightarrow> ([Remote req, SetIsAvailable available], d')
                | (Some e, d') \<Rightarrow>
                    ([Remote req, ConsoleError ''Error updating driver availability:'',
                      Alert ''Error'' ''Failed to update availability status''], d')))"

text \<open>
  \<open>renderDeliveryItem\<close>, reduced to the buttons it shows and the call each one makes
  when pressed. \<open>!item.driver_id\<close> is JavaScript's falsiness; \<open>item.driver_id === user?.id\<close>
  is false when there is no user, since a fetched \<open>driver_id\<close> is a string or \<open>null\<close>.
\<close>

fun falsy :: "jval \<Rightarrow> bool" where
  "falsy JNull = True"
| "falsy (JBool b) = (\<not> b)"
| "falsy (JNum x) = (x = 0)"
| "falsy (JStr s) = (s = [])"

definition isMyDelivery :: "string option \<Rightarrow> row \<Rightarrow> bool" where
  "isMyDelivery user item =
     (case user of None \<Rightarrow> False | Some uid \<Rightarrow> item ''driver_id'' = JStr uid)"

definition canAccept :: "bool \<Rightarrow> row \<Rightarrow> bool" where
  "canAccept isAvailable item =
     (falsy (item ''driver_id'') \<and> item ''status'' = JStr ''pending'' \<and> isAvailable)"

text \<open>The \<open>id\<close> of a fetched row: the primary key, a string.\<close>

definition item_id :: "row \<Rightarrow> string" where
  "item_id item = (case item ''id'' of JStr s \<Rightarrow> s | _ \<Rightarrow> [])"

datatype press =
    PressAccept string
  | PressUpdateStatus string string

definition renderDeliveryItem :: "string option \<Rightarrow> bool \<Rightarrow> row \<Rightarrow> press list" where
  "renderDeliveryItem user isAvailable item =
     (if canAccept isAvailable item then [PressAccept (item_id item)] else []) @
     (if isMyDelivery user item \<and> item ''status'' = JStr ''assigned''
        then [PressUpdateStatus (item_id item) ''picked_up''] else []) @
     (if isMyDelivery user item \<and> item ''status'' = JStr ''picked_up''
        then [PressUpdateStatus (item_id item) ''in_transit''] else []) @
     (if isMyDelivery user item \<and> item ''status'' = JStr ''in_transit''
        then [PressUpdateStatus (item_id item) ''delivered''] else [])"

text \<open>The status a button asks for.\<close>

fun requested_status :: "press \<Rightarrow> string" where
  "requested_status (PressAccept i) = ''assigned''"
| "requested_status (PressUpdateStatus i s) = s"

text \<open>
  The fixed sequence of the delivery workflow, \<open>pending\<close>, \<open>assigned\<close>, \<open>picked_up\<close>,
  \<open>in_transit\<close>, \<open>delivered\<close>, which is the order in which the schema and
  \<open>getStatusColor\<close> list the statuses, \<open>cancelled\<close> left out; and the step from one
  status to the next one in it.
\<close>

definition status_sequence :: "string list" where
  "status_sequence = [''pending'', ''assigned'', ''picked_up'', ''in_transit'', ''delivered'']"

fun next_in :: "string list \<Rightarrow> string \<Rightarrow> string option" where
  "next_in (a # b # rest) s = (if s = a then Some b else next_in (b # rest) s)"
| "next_in _ s = None"

definition next_status :: "jval \<Rightarrow> string option" where
  "next_status v = (case v of JStr s \<Rightarrow> next_in status_sequence s | _ \<Rightarrow> None)"

section \<open>Booking a service\<close>

text \<open>The fields of a fetched service that the booking reads; \<open>price\<close> may be \<open>null\<close>.\<close>

record Service =
  sid :: string
  merchant_id :: string
  title :: string
  price :: "real option"
  requires_delivery :: bool

text \<open>
  \<open>handleBookService\<close>: nothing without a user or a loaded service; only a profile whose
  role is \<open>client\<close> may book; then one insert into \<open>service_requests\<close>. The success
  alert has a button that opens the requests screen when the user presses it.
\<close>

definition handleBookService_request :: "string \<Rightarrow> Service \<Rightarrow> request" where
  "handleBookService_request uid service =
     Insert ''service_requests''
       [(''client_id'', JStr uid),
        (''merchant_id'', JStr (merchant_id service)),
        (''service_id'', JStr (sid service)),
        (''description'', JStr (''Request for: '' @ title service)),
        (''price_quoted'', (case price service of None \<Rightarrow> JNull | Some p \<Rightarrow> JNum p))]"

definition handleBookService ::
  "string option \<Rightarrow> string option \<Rightarrow> Service option \<Rightarrow> senv \<Rightarrow> db \<Rightarrow> effect list \<times> db" where
  "handleBookService user role service env d =
     (case user of
        None \<Rightarrow> ([], d)
      | Some uid \<Rightarrow>
          (case service of
             None \<Rightarrow> ([], d)
           | Some sv \<Rightarrow>
               if role \<noteq> Some ''client''
                 then ([Alert ''Access Denied'' ''Only clients can book services''], d)
               else
                 (let req = handleBookService_request uid sv
                  in case remote uid env req d of
                       (None, d') \<Rightarrow>
                         ([Remote req,
                           Alert ''Success'' ''Service request sent successfully!''], d')
                     | (Some e, d') \<Rightarrow>
                         ([Remote req, ConsoleError ''Error booking service:'',
                           Alert ''Error'' ''Failed to book service''], d'))))"

section \<open>The offline action queue\<close>

record QueuedAction =
  aid :: string
  atype :: string
  adata :: jval
  timestamp :: nat
  retryCount :: nat

definition MAX_RETRY_COUNT :: nat where
  "MAX_RETRY_COUNT = 3"

text \<open>
  The queue is an array of objects. \<open>[...queue]\<close> copies the array, not the objects, and
  \<open>action.retryCount++\<close> changes an object that the state's array still holds. So an
  array is a list of addresses and the objects live in a heap, \<open>next_ref\<close> being the
  first address not used yet. The stored item is the JSON text of the array, a snapshot of
  the objects when it was written.

  \<open>queue\<close> and \<open>isProcessing\<close> are the two pieces of React state of the hook. A function
  of the hook does not read them: it reads the constants \<open>queue\<close>, \<open>isProcessing\<close> and
  \<open>isConnected\<close> of the render that created it. These are parameters of the functions
  below, \<open>cqueue\<close>, \<open>cprocessing\<close> and \<open>isConnected\<close>; a caller that keeps hold of one
  \<open>addToQueue\<close> calls it with the same constants each time, whatever the state has
  become.
\<close>

record hook =
  heap :: "nat \<Rightarrow> QueuedAction"
  next_ref :: nat
  queue :: "nat list"
  isProcessing :: bool
  storage :: "QueuedAction list option"

text \<open>
  \<open>saveQueue(newQueue)\<close>: when \<open>AsyncStorage.setItem\<close> succeeds (\<open>ok\<close>) the item is
  written and \<open>setQueue(newQueue)\<close> runs; when it throws, the error is logged and
  neither happens.
\<close>

definition saveQueue :: "bool \<Rightarrow> nat list \<Rightarrow> hook \<Rightarrow> effect list \<times> hook" where
  "saveQueue ok newQueue st =
     (if ok then ([], st\<lparr>queue := newQueue, storage := Some (map (heap st) newQueue)\<rparr>)
      else ([ConsoleError ''Error saving offline queue:''], st))"

text \<open>
  \<open>executeAction\<close> switches on the type of the action. The API call of each of its three
  cases is commented out, so a known type does nothing and an unknown one is warned about.
  The second component tells whether the promise resolves: no path of the function throws.
\<close>

definition executeAction :: "QueuedAction \<Rightarrow> effect list \<times> bool" where
  "executeAction action =
     (if atype action = ''CREATE_SERVICE'' then ([], True)
      else if atype action = ''UPDATE_PROFILE'' then ([], True)
      else if atype action = ''SEND_MESSAGE'' then ([], True)
      else ([ConsoleWarn ''Unknown action type:''], True))"

text \<open>\<open>updatedQueue.splice(i, 1)\<close>.\<close>

definition splice1 :: "nat \<Rightarrow> 'a list \<Rightarrow> 'a list" where
  "splice1 i xs = take i xs @ drop (Suc i) xs"

text \<open>
  The loop \<open>for (let i = updatedQueue.length - 1; i >= 0; i--)\<close>; the first argument is
  \<open>i + 1\<close>. The state is the heap, \<open>updatedQueue\<close> and the effects so far;
  \<open>ExecuteAction r\<close> records the call of \<open>executeAction\<close> on the object at \<open>r\<close>. The
  second branch is the \<open>catch\<close> block. An index out of range would read \<open>undefined\<close>
  and throw out of the \<open>catch\<close> block: \<open>None\<close>.
\<close>

fun processLoop ::
  "nat \<Rightarrow> (nat \<Rightarrow> QueuedAction) \<times> nat list \<times> effect list
     \<Rightarrow> ((nat \<Rightarrow> QueuedAction) \<times> nat list \<times> effect list) option" where
  "processLoop 0 s = Some s"
| "processLoop (Suc i) (h, updatedQueue, tr) =
     (if i < length updatedQueue then
        (let r = updatedQueue ! i;
             res = executeAction (h r)
         in if snd res
              then processLoop i (h, splice1 i updatedQueue, tr @ [ExecuteAction r] @ fst res)
            else
              (let h' = h(r := (h r)\<lparr>retryCount := retryCount (h r) + 1\<rparr>);
                   tr' = tr @ [ExecuteAction r] @ fst res @
                           [ConsoleError ''Error processing queued action:'']
               in if retryCount (h' r) \<ge> MAX_RETRY_COUNT
                    then processLoop i (h', splice1 i updatedQueue, tr')
                  else processLoop i (h', updatedQueue, tr')))
      else None)"

text \<open>
  \<open>processQueue\<close>, run to its end: it leaves at once when the \<open>isProcessing\<close> of its
  closure is set or the \<open>queue\<close> of its closure is empty; otherwise it goes through a copy
  of that queue and saves what is left of the copy.
\<close>

definition processQueue :: "bool \<Rightarrow> nat list \<Rightarrow> bool \<Rightarrow> hook \<Rightarrow> (effect list \<times> hook) option" where
  "processQueue saveOk cqueue cprocessing st =
     (if cprocessing \<or> cqueue = [] then Some ([], st)
      else
        (case processLoop (length cqueue) (heap st, cqueue, []) of
           None \<Rightarrow> None
         | Some (h, updatedQueue, tr) \<Rightarrow>
             (let saved = saveQueue saveOk updatedQueue (st\<lparr>heap := h, isProcessing := True\<rparr>)
              in Some (tr @ fst saved, (snd saved)\<lparr>isProcessing := False\<rparr>))))"

text \<open>
  The effect of lines 25 to 29, which React runs after a render in which \<open>isConnected\<close> or
  \<open>queue.length\<close> has changed, with the constants of that render.
\<close>

definition queueEffect ::
  "bool \<Rightarrow> nat list \<Rightarrow> bool \<Rightarrow> bool \<Rightarrow> hook \<Rightarrow> (effect list \<times> hook) option" where
  "queueEffect isConnected cqueue cprocessing saveOk st =
     (if isConnected \<and> cqueue \<noteq> [] \<and> \<not> cprocessing
        then processQueue saveOk cqueue cprocessing st
      else Some ([], st))"

text \<open>\<open>Date.now().toString()\<close>: the decimal digits of the time.\<close>

fun decimal :: "nat \<Rightarrow> string" where
  "decimal n =
     (if n < 10 then [char_of (48 + n)] else decimal (n div 10) @ [char_of (48 + n mod 10)])"

declare decimal.simps [simp del]

text \<open>
  \<open>addToQueue(type, data)\<close>: a new object with \<open>retryCount: 0\<close> is appended to the
  \<open>queue\<close> of the closure and the result saved; when the closure is online,
  \<open>processQueue()\<close> of the same closure is then called, whose \<open>queue\<close> does not hold the
  new action. \<open>now1\<close> and \<open>now2\<close> are the two readings of \<open>Date.now()\<close>. The call of
  \<open>processQueue()\<close> is the last step and is not awaited; what it does comes after the
  save, in the order given here.
\<close>

definition addToQueue ::
  "bool \<Rightarrow> nat list \<Rightarrow> bool \<Rightarrow> string \<Rightarrow> jval \<Rightarrow> nat \<Rightarrow> nat \<Rightarrow> bool \<Rightarrow> bool \<Rightarrow> hook
     \<Rightarrow> (effect list \<times> hook) option" where
  "addToQueue isConnected cqueue cprocessing type data now1 now2 saveOk1 saveOk2 st =
     (let r = next_ref st;
          action = \<lparr>aid = decimal now1, atype = type, adata = data, timestamp = now2,
                     retryCount = 0\<rparr>;
          st1 = st\<lparr>heap := (heap st)(r := action), next_ref := Suc r\<rparr>;
          saved = saveQueue saveOk1 (cqueue @ [r]) st1
      in if isConnected then
           (case processQueue saveOk2 cqueue cprocessing (snd saved) of
              None \<Rightarrow> None
            | Some (tr, st') \<Rightarrow> Some (fst saved @ tr, st'))
         else Some saved)"

text \<open>
  What happens to the hook, one call after another, each run to its end. A call of
  \<open>addToQueue\<close> comes with the constants of its closure and with what it is given; a run
  of the effect comes with the constants of its render. Each comes with the outcome of its
  saves.
\<close>

datatype event =
    Add bool "nat list" bool string jval nat nat bool bool
  | Effect bool "nat list" bool bool

fun step :: "event \<Rightarrow> hook \<Rightarrow> (effect list \<times> hook) option" where
  "step (Add isConnected cqueue cprocessing type data now1 now2 saveOk1 saveOk2) st =
     addToQueue isConnected cqueue cprocessing type data now1 now2 saveOk1 saveOk2 st"
| "step (Effect isConnected cqueue cprocessing saveOk) st =
     queueEffect isConnected cqueue cprocessing saveOk st"

fun run :: "event list \<Rightarrow> hook \<Rightarrow> (effect list \<times> hook) option" where
  "run [] st = Some ([], st)"
| "run (e # es) st =
     (case step e st of
        None \<Rightarrow> None
      | Some (tr, st1) \<Rightarrow>
          (case run es st1 of None \<Rightarrow> None | Some (tr', st2) \<Rightarrow> Some (tr @ tr', st2)))"

section \<open>Example states\<close>

definition ex_delivery :: "string \<Rightarrow> string option \<Rightarrow> string \<Rightarrow> row" where
  "ex_delivery i driver st =
     (\<lambda>_. JNull)(''id'' := JStr i, ''service_request_id'' := JStr ''sr1'',
       ''pickup_location'' := JStr ''pickup'', ''delivery_location'' := JStr ''dropoff'',
       ''driver_id'' := (case driver of None \<Rightarrow> JNull | Some u \<Rightarrow> JStr u),
       ''status'' := JStr st)"

definition ex_db :: "row list \<Rightarrow> db" where
  "ex_db ds = \<lparr>deliveries = ds, driver_locations = [], service_requests = []\<rparr>"

definition ex_env :: "string \<Rightarrow> senv" where
  "ex_env g = \<lparr>net = Delivered, gen_id = g, server_now = ''2025-07-24T20:00:00Z''\<rparr>"

definition ex_location :: "string \<Rightarrow> string \<Rightarrow> real \<Rightarrow> real \<Rightarrow> bool \<Rightarrow> row" where
  "ex_location i driver lat lng available =
     (\<lambda>_. JNull)(''id'' := JStr i, ''driver_id'' := JStr driver, ''latitude'' := JNum lat,
       ''longitude'' := JNum lng, ''is_available'' := JBool available,
       ''updated_at'' := JStr ''2025-07-24T19:00:00Z'')"

definition ex_locations :: "row list \<Rightarrow> db" where
  "ex_locations ls = \<lparr>deliveries = [], driver_locations = ls, service_requests = []\<rparr>"

definition ex_service :: Service where
  "ex_service = \<lparr>sid = ''svc1'', merchant_id = ''M'', title = ''Grocery run'',
                   price = Some 25, requires_delivery = True\<rparr>"

definition ex_action :: "nat \<Rightarrow> QueuedAction" where
  "ex_action n = \<lparr>aid = ''1753387200000'', atype = ''SEND_MESSAGE'', adata = JStr ''hello'',
                   timestamp = 1753387200000, retryCount = n\<rparr>"

definition ex_hook :: "nat \<Rightarrow> hook" where
  "ex_hook n = \<lparr>heap = (\<lambda>_. ex_action n), next_ref = 1, queue = [0], isProcessing = False,
                 storage = Some [ex_action n]\<rparr>"

section \<open>Properties: the status update\<close>

lemmas backend_simps = remote_def update_deliveries_def matches_def deliveries_update_using_def
  deliveries_not_null_def deliveries_status_check_def delivery_statuses_def Let_def

lemmas example_simps = ex_delivery_def ex_db_def ex_env_def ex_location_def ex_locations_def
  ex_service_def ex_action_def ex_hook_def

text \<open>
  When the statement reaches the server, the rows respect the \<open>NOT NULL\<close> columns and the
  status is one that the \<open>CHECK\<close> constraint allows, the update is applied to the deliveries
  with that id that are the caller's.
\<close>

lemma updateDeliveryStatus_stored:
  assumes "net env \<noteq> RequestLost" and "list_all deliveries_not_null (deliveries d)"
    and "list_ex (\<lambda>s. status = s) delivery_statuses"
  shows "deliveries (snd (updateDeliveryStatus uid now env deliveryId status d)) =
     map (\<lambda>r. if r ''id'' = JStr deliveryId \<and> r ''driver_id'' = JStr uid
               then (assign (updateData status now) r)(''updated_at'' := JStr (server_now env))
               else r) (deliveries d)"
  using assms
  apply (cases "net env")
    apply (simp_all add: updateDeliveryStatus_def updateDeliveryStatus_request_def backend_simps
      updateData_def list_ex_iff list_all_iff split: prod.splits option.splits sum.splits)
   apply (auto simp: list_ex_iff)
  done

text \<open>
  C4. For every delivery id and every requested status, \<open>updateDeliveryStatus\<close> first
  issues one update of \<open>deliveries\<close> filtered on that id. Its payload holds the requested
  status; it holds \<open>actual_delivery_time\<close>, set to the current time of the client, exactly
  when the requested status is \<open>delivered\<close>; it holds no other column. Nothing the handler
  does afterwards is another update. When the statement reaches the server, the stored rows
  respect the \<open>NOT NULL\<close> columns and the status is one of the six that the table allows,
  the delivery with that id that is assigned to the caller is stored with the new status,
  with the completion time exactly when the status is \<open>delivered\<close>, and with the
  \<open>updated_at\<close> that the trigger of the table stamps; its other columns and all other
  deliveries are as before.
\<close>

theorem updateDeliveryStatus_payload:
  "(\<exists>vals rest.
      fst (updateDeliveryStatus uid now env deliveryId status d) =
        Remote (Update ''deliveries'' vals [(''id'', JStr deliveryId)]) # rest \<and>
      map fst vals =
        (if status = ''delivered'' then [''status'', ''actual_delivery_time''] else [''status'']) \<and>
      map_of vals ''status'' = Some (JStr status) \<and>
      map_of vals ''actual_delivery_time'' =
        (if status = ''delivered'' then Some (JStr now) else None) \<and>
      \<not> list_ex (\<lambda>e. \<exists>t v f. e = Remote (Update t v f)) rest) \<and>
   (net env \<noteq> RequestLost \<and> list_all deliveries_not_null (deliveries d) \<and>
    list_ex (\<lambda>s. status = s) delivery_statuses \<longrightarrow>
      deliveries (snd (updateDeliveryStatus uid now env deliveryId status d)) =
        map (\<lambda>r. if r ''id'' = JStr deliveryId \<and> r ''driver_id'' = JStr uid
                  then (if status = ''delivered''
                        then r(''status'' := JStr status, ''actual_delivery_time'' := JStr now,
                               ''updated_at'' := JStr (server_now env))
                        else r(''status'' := JStr status,
                               ''updated_at'' := JStr (server_now env)))
                  else r) (deliveries d))"
proof (intro conjI impI)
  show "\<exists>vals rest.
      fst (updateDeliveryStatus uid now env deliveryId status d) =
        Remote (Update ''deliveries'' vals [(''id'', JStr deliveryId)]) # rest \<and>
      map fst vals =
        (if status = ''delivered'' then [''status'', ''actual_delivery_time''] else [''status'']) \<and>
      map_of vals ''status'' = Some (JStr status) \<and>
      map_of vals ''actual_delivery_time'' =
        (if status = ''delivered'' then Some (JStr now) else None) \<and>
      \<not> list_ex (\<lambda>e. \<exists>t v f. e = Remote (Update t v f)) rest"
    by (auto simp: updateDeliveryStatus_def updateDeliveryStatus_request_def updateData_def
        Let_def split: prod.splits option.splits)
next
  assume a: "net env \<noteq> RequestLost \<and> list_all deliveries_not_null (deliveries d) \<and>
    list_ex (\<lambda>s. status = s) delivery_statuses"
  have "deliveries (snd (updateDeliveryStatus uid now env deliveryId status d)) =
     map (\<lambda>r. if r ''id'' = JStr deliveryId \<and> r ''driver_id'' = JStr uid
               then (assign (updateData status now) r)(''updated_at'' := JStr (server_now env))
               else r) (deliveries d)"
    using a by (intro updateDeliveryStatus_stored) simp_all
  then show "deliveries (snd (updateDeliveryStatus uid now env deliveryId status d)) =
        map (\<lambda>r. if r ''id'' = JStr deliveryId \<and> r ''driver_id'' = JStr uid
                  then (if status = ''delivered''
                        then r(''status'' := JStr status, ''actual_delivery_time'' := JStr now,
                               ''updated_at'' := JStr (server_now env))
                        else r(''status'' := JStr status,
                               ''updated_at'' := JStr (server_now env)))
                  else r) (deliveries d)"
    by (simp add: updateData_def)
qed

theorem updateDeliveryStatus_payload_witness:
  "net (ex_env ''g1'') \<noteq> RequestLost \<and>
   list_all deliveries_not_null
     [ex_delivery ''d1'' (Some ''D'') ''in_transit'', ex_delivery ''d2'' (Some ''E'') ''assigned''] \<and>
   list_ex (\<lambda>s. ''delivered'' = s) delivery_statuses \<and>
   fst (updateDeliveryStatus ''D'' ''2025-07-24T21:00:00Z'' (ex_env ''g1'') ''d1'' ''delivered''
     (ex_db [ex_delivery ''d1'' (Some ''D'') ''in_transit'',
             ex_delivery ''d2'' (Some ''E'') ''assigned''])) =
     [Remote (Update ''deliveries''
        [(''status'', JStr ''delivered''),
         (''actual_delivery_time'', JStr ''2025-07-24T21:00:00Z'')] [(''id'', JStr ''d1'')]),
      Remote (Select ''deliveries'')] \<and>
   map (\<lambda>r. (r ''id'', r ''driver_id'', r ''status'', r ''actual_delivery_time'', r ''updated_at''))
     (deliveries (snd (updateDeliveryStatus ''D'' ''2025-07-24T21:00:00Z'' (ex_env ''g1'') ''d1''
        ''delivered'' (ex_db [ex_delivery ''d1'' (Some ''D'') ''in_transit'',
                              ex_delivery ''d2'' (Some ''E'') ''assigned''])))) =
     [(JStr ''d1'', JStr ''D'', JStr ''delivered'', JStr ''2025-07-24T21:00:00Z'',
       JStr ''2025-07-24T20:00:00Z''),
      (JStr ''d2'', JStr ''E'', JStr ''assigned'', JNull, JNull)]"
proof -
  let ?d = "ex_db [ex_delivery ''d1'' (Some ''D'') ''in_transit'',
                   ex_delivery ''d2'' (Some ''E'') ''assigned'']"
  have n: "net (ex_env ''g1'') \<noteq> RequestLost" by (simp add: ex_env_def)
  have wf: "list_all deliveries_not_null (deliveries ?d)"
    by (simp add: example_simps deliveries_not_null_def)
  have st: "list_ex (\<lambda>s. ''delivered'' = s) delivery_statuses"
    by (simp add: delivery_statuses_def)
  have tr: "fst (updateDeliveryStatus ''D'' ''2025-07-24T21:00:00Z'' (ex_env ''g1'') ''d1''
              ''delivered'' ?d) =
     [Remote (Update ''deliveries''
        [(''status'', JStr ''delivered''),
         (''actual_delivery_time'', JStr ''2025-07-24T21:00:00Z'')] [(''id'', JStr ''d1'')]),
      Remote (Select ''deliveries'')]"
    by (simp add: updateDeliveryStatus_def updateDeliveryStatus_request_def updateData_def
        backend_simps example_simps)
  from updateDeliveryStatus_payload[of "''D''" "''2025-07-24T21:00:00Z''" "ex_env ''g1''" "''d1''"
      "''delivered''" ?d] n wf st
  have "deliveries (snd (updateDeliveryStatus ''D'' ''2025-07-24T21:00:00Z'' (ex_env ''g1'') ''d1''
        ''delivered'' ?d)) =
        map (\<lambda>r. if r ''id'' = JStr ''d1'' \<and> r ''driver_id'' = JStr ''D''
                  then r(''status'' := JStr ''delivered'',
                         ''actual_delivery_time'' := JStr ''2025-07-24T21:00:00Z'',
                         ''updated_at'' := JStr (server_now (ex_env ''g1'')))
                  else r) (deliveries ?d)"
    by simp
  then have "map (\<lambda>r. (r ''id'', r ''driver_id'', r ''status'', r ''actual_delivery_time'',
                      r ''updated_at''))
     (deliveries (snd (updateDeliveryStatus ''D'' ''2025-07-24T21:00:00Z'' (ex_env ''g1'') ''d1''
        ''delivered'' ?d))) =
     [(JStr ''d1'', JStr ''D'', JStr ''delivered'', JStr ''2025-07-24T21:00:00Z'',
       JStr ''2025-07-24T20:00:00Z''),
      (JStr ''d2'', JStr ''E'', JStr ''assigned'', JNull, JNull)]"
    by (simp add: example_simps)
  with n wf st tr show ?thesis by (simp add: ex_db_def)
qed

section \<open>Properties: accepting a delivery\<close>

lemma update_deliveries_rows:
  "update_deliveries uid now vals flt tbl = Inr tbl' \<Longrightarrow>
     tbl' = map (\<lambda>r. if matches flt r \<and> r ''driver_id'' = JStr uid
                      then (assign vals r)(''updated_at'' := JStr now) else r) tbl"
  by (auto simp: update_deliveries_def Let_def deliveries_update_using_def split: if_splits)

lemma remote_update_deliveries:
  "remote uid env (Update ''deliveries'' vals flt) d = (res, d') \<Longrightarrow>
     driver_locations d' = driver_locations d \<and> service_requests d' = service_requests d \<and>
     (deliveries d' = deliveries d \<or>
      update_deliveries uid (server_now env) vals flt (deliveries d) = Inr (deliveries d'))"
  by (auto simp: remote_def split: net_outcome.splits sum.splits)

lemma acceptDelivery_remote:
  "acceptDelivery (Some uid) env deliveryId d = (eff, d') \<Longrightarrow>
     \<exists>res. remote uid env (acceptDelivery_request uid deliveryId) d = (res, d')"
  by (auto simp: acceptDelivery_def Let_def split: prod.splits option.splits)

lemma acceptDelivery_effects:
  "acceptDelivery (Some uid) env deliveryId d = (eff, d') \<Longrightarrow>
     \<exists>rest. eff = Remote (acceptDelivery_request uid deliveryId) # rest \<and>
            \<not> list_ex (\<lambda>e. \<exists>t v f. e = Remote (Update t v f)) rest"
  by (auto simp: acceptDelivery_def Let_def split: prod.splits option.splits)

lemma accept_own_rows_succeeds:
  assumes "list_all deliveries_not_null tbl"
  shows "update_deliveries uid now [(''driver_id'', JStr uid), (''status'', JStr ''assigned'')]
           [(''id'', JStr deliveryId)] tbl =
         Inr (map (\<lambda>r. if r ''id'' = JStr deliveryId \<and> r ''driver_id'' = JStr uid
                       then r(''status'' := JStr ''assigned'', ''updated_at'' := JStr now)
                       else r) tbl)"
proof -
  have "\<And>r. r \<in> set tbl \<Longrightarrow> deliveries_not_null r"
    using assms by (simp add: list_all_iff)
  then show ?thesis
    by (auto simp: update_deliveries_def matches_def deliveries_update_using_def
        deliveries_not_null_def deliveries_status_check_def delivery_statuses_def
        Let_def list_ex_iff fun_upd_idem_iff)
qed

text \<open>
  C1, at a pending delivery without a driver, seen by the available driver \<open>D\<close>. The screen
  offers the accept button, and pressing it reports success. The update policy of
  \<open>deliveries\<close> admits only rows whose \<open>driver_id\<close> is already the caller, so the
  statement changes no row: the delivery is still pending and still has no driver.
\<close>

theorem acceptDelivery_pending_unassigned_unchanged:
  "renderDeliveryItem (Some ''D'') True (ex_delivery ''d1'' None ''pending'') =
     [PressAccept ''d1''] \<and>
   acceptDelivery (Some ''D'') (ex_env ''g1'') ''d1''
       (ex_db [ex_delivery ''d1'' None ''pending'']) =
     ([Remote (acceptDelivery_request ''D'' ''d1''), Alert ''Success'' ''Delivery accepted!'',
       Remote (Select ''deliveries'')],
      ex_db [ex_delivery ''d1'' None ''pending''])"
  by (simp add: renderDeliveryItem_def canAccept_def isMyDelivery_def item_id_def
      acceptDelivery_def acceptDelivery_request_def backend_simps example_simps)

text \<open>
  C2 as stated fails: a delivery in transit with driver \<open>D1\<close> keeps its driver and its
  status when \<open>D2\<close> accepts it.
\<close>

theorem acceptDelivery_other_driver_counterexample:
  "map (\<lambda>r. (r ''driver_id'', r ''status''))
     (deliveries (snd (acceptDelivery (Some ''D2'') (ex_env ''g1'') ''d1''
        (ex_db [ex_delivery ''d1'' (Some ''D1'') ''in_transit''])))) =
   [(JStr ''D1'', JStr ''in_transit'')]"
  by (simp add: acceptDelivery_def acceptDelivery_request_def backend_simps example_simps)

text \<open>
  C2, amended. \<open>acceptDelivery(deliveryId)\<close> by \<open>D2\<close> issues one update whose payload is
  \<open>driver_id = D2, status = 'assigned'\<close> and whose only filter is the delivery id: the
  request carries no condition on the driver or on the status. It is not applied to every
  state: under the update policy of the table a delivery that is assigned to another driver
  stays as it was, as does every delivery with another id. A delivery with that id that is
  already \<open>D2\<close>'s is set to \<open>assigned\<close> whatever its status was, when the statement
  reaches the server and the rows respect the \<open>NOT NULL\<close> columns. Nothing is said here of
  a delivery with that id that has no driver.
\<close>

theorem acceptDelivery_only_own_rows:
  assumes "acceptDelivery (Some D2) env deliveryId d = (eff, d')"
  shows "(\<exists>rest. eff = Remote (Update ''deliveries''
                     [(''driver_id'', JStr D2), (''status'', JStr ''assigned'')]
                     [(''id'', JStr deliveryId)]) # rest \<and>
            \<not> list_ex (\<lambda>e. \<exists>t v f. e = Remote (Update t v f)) rest) \<and>
         list_all2 (\<lambda>r r'.
             (r ''id'' \<noteq> JStr deliveryId \<or> (\<exists>D1. D1 \<noteq> D2 \<and> r ''driver_id'' = JStr D1)
                \<longrightarrow> r' = r) \<and>
             (r ''id'' = JStr deliveryId \<and> r ''driver_id'' = JStr D2
                \<longrightarrow> r' = r \<or> r' = r(''status'' := JStr ''assigned'',
                                      ''updated_at'' := JStr (server_now env))))
           (deliveries d) (deliveries d') \<and>
         (net env \<noteq> RequestLost \<and> list_all deliveries_not_null (deliveries d) \<longrightarrow>
            list_all2 (\<lambda>r r'. r ''id'' = JStr deliveryId \<and> r ''driver_id'' = JStr D2 \<longrightarrow>
                          r' = r(''status'' := JStr ''assigned'',
                                 ''updated_at'' := JStr (server_now env)))
              (deliveries d) (deliveries d'))"
proof -
  let ?vals = "[(''driver_id'', JStr D2), (''status'', JStr ''assigned'')]"
  let ?flt = "[(''id'', JStr deliveryId)]"
  let ?f = "\<lambda>r. if r ''id'' = JStr deliveryId \<and> r ''driver_id'' = JStr D2
               then r(''status'' := JStr ''assigned'', ''updated_at'' := JStr (server_now env))
               else r"
  obtain res where r: "remote D2 env (Update ''deliveries'' ?vals ?flt) d = (res, d')"
    using acceptDelivery_remote[OF assms] by (auto simp: acceptDelivery_request_def)
  have eff: "\<exists>rest. eff = Remote (Update ''deliveries'' ?vals ?flt) # rest \<and>
            \<not> list_ex (\<lambda>e. \<exists>t v f. e = Remote (Update t v f)) rest"
    using acceptDelivery_effects[OF assms] by (simp add: acceptDelivery_request_def)
  have cases: "deliveries d' = deliveries d \<or> deliveries d' = map ?f (deliveries d)"
  proof -
    from remote_update_deliveries[OF r]
    consider "deliveries d' = deliveries d"
      | "update_deliveries D2 (server_now env) ?vals ?flt (deliveries d) = Inr (deliveries d')"
      by blast
    then show ?thesis
    proof cases
      case 1 then show ?thesis by simp
    next
      case 2
      have "deliveries d' = map ?f (deliveries d)"
        unfolding update_deliveries_rows[OF 2]
        by (rule map_cong) (auto simp: matches_def fun_upd_idem_iff)
      then show ?thesis by simp
    qed
  qed
  have frame: "list_all2 (\<lambda>r r'.
             (r ''id'' \<noteq> JStr deliveryId \<or> (\<exists>D1. D1 \<noteq> D2 \<and> r ''driver_id'' = JStr D1)
                \<longrightarrow> r' = r) \<and>
             (r ''id'' = JStr deliveryId \<and> r ''driver_id'' = JStr D2
                \<longrightarrow> r' = r \<or> r' = r(''status'' := JStr ''assigned'',
                                      ''updated_at'' := JStr (server_now env))))
           (deliveries d) (deliveries d')"
    using cases by (auto simp: list_all2_map2 list.rel_refl_strong)
  have pos: "list_all2 (\<lambda>r r'. r ''id'' = JStr deliveryId \<and> r ''driver_id'' = JStr D2 \<longrightarrow>
                          r' = r(''status'' := JStr ''assigned'',
                                 ''updated_at'' := JStr (server_now env)))
              (deliveries d) (deliveries d')"
    if run: "net env \<noteq> RequestLost" and wf: "list_all deliveries_not_null (deliveries d)"
  proof -
    have "deliveries d' = map ?f (deliveries d)"
      using r run accept_own_rows_succeeds[OF wf, of D2 "server_now env" deliveryId]
      by (auto simp: remote_def split: net_outcome.splits)
    then show ?thesis
      by (auto simp: list_all2_map2 list.rel_refl_strong)
  qed
  from eff frame pos show ?thesis by blast
qed

theorem acceptDelivery_only_own_rows_witness:
  "(\<exists>eff d'.
     acceptDelivery (Some ''D2'') (ex_env ''g1'') ''d1''
       (ex_db [ex_delivery ''d1'' (Some ''D2'') ''in_transit'',
               ex_delivery ''d2'' (Some ''D1'') ''in_transit'']) = (eff, d') \<and>
     net (ex_env ''g1'') \<noteq> RequestLost \<and>
     list_all deliveries_not_null
       [ex_delivery ''d1'' (Some ''D2'') ''in_transit'',
        ex_delivery ''d2'' (Some ''D1'') ''in_transit''] \<and>
     map (\<lambda>r. (r ''id'', r ''driver_id'', r ''status'')) (deliveries d') =
       [(JStr ''d1'', JStr ''D2'', JStr ''assigned''),
        (JStr ''d2'', JStr ''D1'', JStr ''in_transit'')]) \<and>
   (\<exists>eff d'.
     acceptDelivery (Some ''D2'') (ex_env ''g1'') ''d1''
       (ex_db [ex_delivery ''d1'' (Some ''D1'') ''in_transit'']) = (eff, d') \<and>
     ''D1'' \<noteq> ''D2'' \<and>
     deliveries d' = [ex_delivery ''d1'' (Some ''D1'') ''in_transit''])"
proof (rule conjI)
  let ?d = "ex_db [ex_delivery ''d1'' (Some ''D2'') ''in_transit'',
               ex_delivery ''d2'' (Some ''D1'') ''in_transit'']"
  obtain eff d' where a: "acceptDelivery (Some ''D2'') (ex_env ''g1'') ''d1'' ?d = (eff, d')"
    by (cases "acceptDelivery (Some ''D2'') (ex_env ''g1'') ''d1'' ?d") blast
  have n: "net (ex_env ''g1'') \<noteq> RequestLost"
    by (simp add: ex_env_def)
  have wf: "list_all deliveries_not_null (deliveries ?d)"
    by (simp add: example_simps deliveries_not_null_def)
  from acceptDelivery_only_own_rows[OF a] n wf
  have "list_all2 (\<lambda>r r'.
             (r ''id'' \<noteq> JStr ''d1'' \<or> (\<exists>D1. D1 \<noteq> ''D2'' \<and> r ''driver_id'' = JStr D1)
                \<longrightarrow> r' = r) \<and>
             (r ''id'' = JStr ''d1'' \<and> r ''driver_id'' = JStr ''D2''
                \<longrightarrow> r' = r \<or> r' = r(''status'' := JStr ''assigned'',
                                      ''updated_at'' := JStr (server_now (ex_env ''g1'')))))
           (deliveries ?d) (deliveries d')"
    and "list_all2 (\<lambda>r r'. r ''id'' = JStr ''d1'' \<and> r ''driver_id'' = JStr ''D2'' \<longrightarrow>
                          r' = r(''status'' := JStr ''assigned'',
                                 ''updated_at'' := JStr (server_now (ex_env ''g1''))))
              (deliveries ?d) (deliveries d')"
    by blast+
  then have "list_all2 (\<lambda>r r'.
             (r ''id'' \<noteq> JStr ''d1'' \<longrightarrow> r' = r) \<and>
             (r ''id'' = JStr ''d1'' \<and> r ''driver_id'' = JStr ''D2'' \<longrightarrow>
                r' = r(''status'' := JStr ''assigned'',
                       ''updated_at'' := JStr (server_now (ex_env ''g1'')))))
           (deliveries ?d) (deliveries d')"
    by (simp add: list_all2_conv_all_nth)
  then have "map (\<lambda>r. (r ''id'', r ''driver_id'', r ''status'')) (deliveries d') =
       [(JStr ''d1'', JStr ''D2'', JStr ''assigned''),
        (JStr ''d2'', JStr ''D1'', JStr ''in_transit'')]"
    by (auto simp: example_simps list_all2_Cons1)
  with a n wf show "\<exists>eff d'.
     acceptDelivery (Some ''D2'') (ex_env ''g1'') ''d1'' ?d = (eff, d') \<and>
     net (ex_env ''g1'') \<noteq> RequestLost \<and>
     list_all deliveries_not_null
       [ex_delivery ''d1'' (Some ''D2'') ''in_transit'',
        ex_delivery ''d2'' (Some ''D1'') ''in_transit''] \<and>
     map (\<lambda>r. (r ''id'', r ''driver_id'', r ''status'')) (deliveries d') =
       [(JStr ''d1'', JStr ''D2'', JStr ''assigned''),
        (JStr ''d2'', JStr ''D1'', JStr ''in_transit'')]"
    by (simp add: ex_db_def)
next
  let ?d = "ex_db [ex_delivery ''d1'' (Some ''D1'') ''in_transit'']"
  obtain eff d' where a: "acceptDelivery (Some ''D2'') (ex_env ''g1'') ''d1'' ?d = (eff, d')"
    by (cases "acceptDelivery (Some ''D2'') (ex_env ''g1'') ''d1'' ?d") blast
  have ne: "''D1'' \<noteq> ''D2''" by simp
  from acceptDelivery_only_own_rows[OF a]
  have "list_all2 (\<lambda>r r'.
             (r ''id'' \<noteq> JStr ''d1'' \<or> (\<exists>D1. D1 \<noteq> ''D2'' \<and> r ''driver_id'' = JStr D1)
                \<longrightarrow> r' = r) \<and>
             (r ''id'' = JStr ''d1'' \<and> r ''driver_id'' = JStr ''D2''
                \<longrightarrow> r' = r \<or> r' = r(''status'' := JStr ''assigned'',
                                      ''updated_at'' := JStr (server_now (ex_env ''g1'')))))
           (deliveries ?d) (deliveries d')"
    by blast
  then have "deliveries d' = [ex_delivery ''d1'' (Some ''D1'') ''in_transit'']"
    by (auto simp: example_simps list_all2_Cons1)
  with a ne show "\<exists>eff d'.
     acceptDelivery (Some ''D2'') (ex_env ''g1'') ''d1'' ?d = (eff, d') \<and>
     ''D1'' \<noteq> ''D2'' \<and>
     deliveries d' = [ex_delivery ''d1'' (Some ''D1'') ''in_transit'']"
    by blast
qed

section \<open>Properties: the buttons of a delivery\<close>

text \<open>
  C3 as stated fails for the accept button: it asks for a change of status, from
  \<open>pending\<close> to \<open>assigned\<close>, and is offered to a driver who is not the assigned
  driver, the delivery having none.
\<close>

theorem accept_offered_to_unassigned_counterexample:
  "PressAccept ''d1'' \<in> set (renderDeliveryItem (Some ''D'') True (ex_delivery ''d1'' None ''pending'')) \<and>
   requested_status (PressAccept ''d1'') = ''assigned'' \<and>
   \<not> isMyDelivery (Some ''D'') (ex_delivery ''d1'' None ''pending'')"
  by (simp add: renderDeliveryItem_def canAccept_def isMyDelivery_def item_id_def ex_delivery_def)

text \<open>
  C3, amended. Every button of a delivery asks for the status one step after the shown
  one in the sequence \<open>pending\<close>, \<open>assigned\<close>, \<open>picked_up\<close>, \<open>in_transit\<close>,
  \<open>delivered\<close>. The three buttons that call \<open>updateDeliveryStatus\<close> are offered only
  to the assigned driver; the accept button is offered only while the delivery has no driver
  and the viewer is available. A delivery that is \<open>delivered\<close> or \<open>cancelled\<close> has no
  button. The handler itself checks nothing: it sends the status it is given, and on the
  caller's own delivery the server stores any of the six statuses whatever the current one
  is, so only the buttons keep a step from being skipped.
\<close>

theorem renderDeliveryItem_offers_next_step:
  "(\<forall>p \<in> set (renderDeliveryItem user isAvailable item).
      next_status (item ''status'') = Some (requested_status p) \<and>
      (case p of
         PressAccept i \<Rightarrow> i = item_id item \<and> falsy (item ''driver_id'') \<and> isAvailable
       | PressUpdateStatus i s \<Rightarrow> i = item_id item \<and> isMyDelivery user item)) \<and>
   (item ''status'' = JStr ''delivered'' \<or> item ''status'' = JStr ''cancelled'' \<longrightarrow>
      renderDeliveryItem user isAvailable item = []) \<and>
   (\<exists>rest. fst (updateDeliveryStatus uid now env deliveryId status d) =
      Remote (Update ''deliveries'' (updateData status now) [(''id'', JStr deliveryId)]) # rest) \<and>
   (net env = Delivered \<and> list_all deliveries_not_null (deliveries d) \<and>
    list_ex (\<lambda>s. status = s) delivery_statuses \<longrightarrow>
      deliveries (snd (updateDeliveryStatus uid now env deliveryId status d)) =
        map (\<lambda>r. if r ''id'' = JStr deliveryId \<and> r ''driver_id'' = JStr uid
                  then (assign (updateData status now) r)
                         (''updated_at'' := JStr (server_now env))
                  else r) (deliveries d))"
proof -
  have 1: "\<forall>p \<in> set (renderDeliveryItem user isAvailable item).
      next_status (item ''status'') = Some (requested_status p) \<and>
      (case p of
         PressAccept i \<Rightarrow> i = item_id item \<and> falsy (item ''driver_id'') \<and> isAvailable
       | PressUpdateStatus i s \<Rightarrow> i = item_id item \<and> isMyDelivery user item)"
    by (auto simp: renderDeliveryItem_def canAccept_def next_status_def status_sequence_def
        split: if_splits)
  have 2: "item ''status'' = JStr ''delivered'' \<or> item ''status'' = JStr ''cancelled'' \<longrightarrow>
      renderDeliveryItem user isAvailable item = []"
    by (auto simp: renderDeliveryItem_def canAccept_def)
  have 3: "\<exists>rest. fst (updateDeliveryStatus uid now env deliveryId status d) =
      Remote (Update ''deliveries'' (updateData status now) [(''id'', JStr deliveryId)]) # rest"
    by (auto simp: updateDeliveryStatus_def updateDeliveryStatus_request_def Let_def
        split: prod.splits option.splits)
  have 4: "deliveries (snd (updateDeliveryStatus uid now env deliveryId status d)) =
        map (\<lambda>r. if r ''id'' = JStr deliveryId \<and> r ''driver_id'' = JStr uid
                  then (assign (updateData status now) r)
                         (''updated_at'' := JStr (server_now env))
                  else r) (deliveries d)"
    if "net env = Delivered" and "list_all deliveries_not_null (deliveries d)"
      and "list_ex (\<lambda>s. status = s) delivery_statuses"
    using that by (intro updateDeliveryStatus_stored) simp_all
  from 1 2 3 4 show ?thesis by blast
qed

theorem renderDeliveryItem_offers_next_step_witness:
  "renderDeliveryItem (Some ''D'') True (ex_delivery ''d1'' (Some ''D'') ''assigned'') =
     [PressUpdateStatus ''d1'' ''picked_up''] \<and>
   next_status (JStr ''assigned'') = Some ''picked_up'' \<and>
   isMyDelivery (Some ''D'') (ex_delivery ''d1'' (Some ''D'') ''assigned'') \<and>
   renderDeliveryItem (Some ''D'') True (ex_delivery ''d1'' (Some ''D'') ''delivered'') = [] \<and>
   net (ex_env ''g1'') = Delivered \<and>
   list_all deliveries_not_null [ex_delivery ''d1'' (Some ''D'') ''assigned''] \<and>
   list_ex (\<lambda>s. ''delivered'' = s) delivery_statuses \<and>
   map (\<lambda>r. (r ''status'', r ''actual_delivery_time''))
     (deliveries (snd (updateDeliveryStatus ''D'' ''2025-07-24T21:00:00Z'' (ex_env ''g1'') ''d1''
        ''delivered'' (ex_db [ex_delivery ''d1'' (Some ''D'') ''assigned'']))))
     = [(JStr ''delivered'', JStr ''2025-07-24T21:00:00Z'')]"
proof -
  let ?item = "ex_delivery ''d1'' (Some ''D'') ''assigned''"
  have r: "renderDeliveryItem (Some ''D'') True ?item = [PressUpdateStatus ''d1'' ''picked_up'']"
    by (simp add: renderDeliveryItem_def canAccept_def isMyDelivery_def item_id_def ex_delivery_def)
  have n: "net (ex_env ''g1'') = Delivered" by (simp add: ex_env_def)
  have wf: "list_all deliveries_not_null (deliveries (ex_db [?item]))"
    by (simp add: example_simps deliveries_not_null_def)
  have st: "list_ex (\<lambda>s. ''delivered'' = s) delivery_statuses"
    by (simp add: delivery_statuses_def)
  note t = renderDeliveryItem_offers_next_step[of "Some ''D''" True ?item "''D''"
      "''2025-07-24T21:00:00Z''" "ex_env ''g1''" "''d1''" "''delivered''" "ex_db [?item]"]
  from t r have a: "next_status (?item ''status'') = Some ''picked_up'' \<and> isMyDelivery (Some ''D'') ?item"
    by simp
  from t have b: "renderDeliveryItem (Some ''D'') True (ex_delivery ''d1'' (Some ''D'') ''delivered'') = []"
    using renderDeliveryItem_offers_next_step[of "Some ''D''" True "ex_delivery ''d1'' (Some ''D'') ''delivered''"]
    by (simp add: ex_delivery_def)
  from t n wf st have c: "deliveries (snd (updateDeliveryStatus ''D'' ''2025-07-24T21:00:00Z'' (ex_env ''g1'') ''d1''
        ''delivered'' (ex_db [?item]))) =
        map (\<lambda>r. if r ''id'' = JStr ''d1'' \<and> r ''driver_id'' = JStr ''D''
                  then (assign (updateData ''delivered'' ''2025-07-24T21:00:00Z'') r)
                         (''updated_at'' := JStr (server_now (ex_env ''g1'')))
                  else r) (deliveries (ex_db [?item]))"
    by blast
  show ?thesis
    using r a b n wf st unfolding c
    by (simp add: example_simps updateData_def)
qed

section \<open>Properties: driver availability\<close>

text \<open>
  Converting the payload of the handler rounds the coordinates it carries, if any, and
  leaves the rest as it is.
\<close>

lemma cast_availability_payload:
  "driver_locations_cast (availability_payload uid available location now) =
     (case location of
        None \<Rightarrow> Inr (availability_payload uid available None now)
      | Some c \<Rightarrow>
          if \<bar>round8 (fst c)\<bar> < 10 ^ 2 \<and> \<bar>round8 (snd c)\<bar> < 10 ^ 3
            then Inr (availability_payload uid available (Some (round8 (fst c), round8 (snd c))) now)
          else Inl NumericOverflow)"
  by (simp add: availability_payload_def decimal8_def split: option.splits)

text \<open>
  C7, at a driver who goes online and then offline. Going online from a table without a row
  of the driver stores the row with the sampled coordinates, rounded to the 8 decimals of
  the columns. Going offline then sends \<open>driver_id\<close>, \<open>is_available = false\<close> and
  \<open>updated_at\<close>, and no coordinates. The call names no conflict target, so the server
  takes the primary key; the new row has a fresh \<open>id\<close> and is refused by the \<open>UNIQUE\<close>
  constraint on \<open>driver_id\<close>. The handler shows the error alert and the stored row is as
  before: the coordinates are kept, and so is \<open>is_available = true\<close>.
\<close>

theorem updateDriverAvailability_offline_refused:
  "fst (updateDriverAvailability (Some ''D'') True (Some (45.501689999999996, -73.567256))
          ''2025-07-24T19:00:00Z'' (ex_env ''g1'') True (ex_locations [])) =
     [Remote (Upsert ''driver_locations''
        [(''driver_id'', JStr ''D''), (''latitude'', JNum 45.501689999999996),
         (''longitude'', JNum (-73.567256)), (''is_available'', JBool True),
         (''updated_at'', JStr ''2025-07-24T19:00:00Z'')] None),
      SetIsAvailable True] \<and>
   map (\<lambda>r. (r ''id'', r ''driver_id'', r ''latitude'', r ''longitude'', r ''is_available''))
     (driver_locations (snd (updateDriverAvailability (Some ''D'') True
        (Some (45.501689999999996, -73.567256)) ''2025-07-24T19:00:00Z'' (ex_env ''g1'') True
        (ex_locations [])))) =
     [(JStr ''g1'', JStr ''D'', JNum 45.50169, JNum (-73.567256), JBool True)] \<and>
   updateDriverAvailability (Some ''D'') True None ''2025-07-24T21:00:00Z'' (ex_env ''g2'') False
     (snd (updateDriverAvailability (Some ''D'') True (Some (45.501689999999996, -73.567256))
        ''2025-07-24T19:00:00Z'' (ex_env ''g1'') True (ex_locations []))) =
     ([Remote (Upsert ''driver_locations''
         [(''driver_id'', JStr ''D''), (''is_available'', JBool False),
          (''updated_at'', JStr ''2025-07-24T21:00:00Z'')] None),
       ConsoleError ''Error updating driver availability:'',
       Alert ''Error'' ''Failed to update availability status''],
      snd (updateDriverAvailability (Some ''D'') True (Some (45.501689999999996, -73.567256))
        ''2025-07-24T19:00:00Z'' (ex_env ''g1'') True (ex_locations [])))"
  by (simp add: updateDriverAvailability_def remote_def upsert_driver_locations_def
      availability_payload_def decimal8_def round8_def unique_col_def driver_locations_using_def
      driver_locations_defaults_def ex_locations_def ex_env_def Let_def)

text \<open>
  The \<open>UNIQUE\<close> constraint keeps one row per driver whatever is upserted; an upsert whose
  conflict target is \<open>driver_id\<close> would update the driver's row.
\<close>

lemma upsert_keeps_one_row_per_driver:
  "upsert_driver_locations uid env vals oc tbl = Inr tbl' \<Longrightarrow> unique_col ''driver_id'' tbl'"
  by (auto simp: upsert_driver_locations_def Let_def split: if_splits sum.splits)

lemma upsert_on_driver_id_updates:
  "map_sum id (map (\<lambda>r. (r ''id'', r ''driver_id'', r ''latitude'', r ''longitude'', r ''is_available'')))
    (upsert_driver_locations ''D'' (ex_env ''g2'')
     (availability_payload ''D'' False None ''2025-07-24T21:00:00Z'') (Some ''driver_id'')
     [ex_location ''g1'' ''D'' 45.5 (-73.6) True]) =
   Inr [(JStr ''g1'', JStr ''D'', JNum 45.5, JNum (-73.6), JBool False)]"
  by (simp add: upsert_driver_locations_def availability_payload_def example_simps unique_col_def
      driver_locations_using_def driver_locations_defaults_def Let_def)

lemma upsert_existing_driver_rejected:
  assumes "list_ex (\<lambda>r. r ''driver_id'' = JStr uid) tbl"
    and "\<not> list_ex (\<lambda>r. r ''id'' = JStr (gen_id env)) tbl"
  shows "\<exists>e. upsert_driver_locations uid env (availability_payload uid available location now)
                None tbl = Inl e"
proof (cases "driver_locations_cast (availability_payload uid available location now)")
  case (Inl e)
  then show ?thesis by (simp add: upsert_driver_locations_def)
next
  case (Inr cvals)
  then obtain loc where cv: "cvals = availability_payload uid available loc now"
    by (auto simp: cast_availability_payload split: option.splits if_splits)
  let ?new = "assign cvals (driver_locations_defaults env)"
  have id: "?new ''id'' = JStr (gen_id env)"
    unfolding cv by (cases loc) (simp_all add: availability_payload_def driver_locations_defaults_def)
  have dr: "?new ''driver_id'' = JStr uid"
    unfolding cv by (cases loc) (simp_all add: availability_payload_def driver_locations_defaults_def)
  have nodup: "\<not> unique_col ''driver_id'' (tbl @ [?new])"
  proof -
    from assms(1) obtain r where "r \<in> set tbl" and "r ''driver_id'' = JStr uid"
      by (auto simp: list_ex_iff)
    then have "?new ''driver_id'' \<in> (\<lambda>r. r ''driver_id'') ` set tbl"
      unfolding dr by (metis (mono_tags, lifting) image_eqI)
    then show ?thesis
      by (simp add: unique_col_def)
  qed
  have "upsert_driver_locations uid env (availability_payload uid available location now)
          None tbl = Inl UniqueViolation"
    using assms(2) nodup
    by (auto simp: upsert_driver_locations_def Inr Let_def id dr driver_locations_using_def
        list_ex_iff)
  then show ?thesis by blast
qed

text \<open>
  C8, where the driver already has a row. The call passes no \<open>onConflict\<close>, so the
  conflict target is the primary key; the payload has no \<open>id\<close>, the new row gets a fresh
  one and does not conflict there, and the insert then breaks the \<open>UNIQUE\<close> constraint on
  \<open>driver_id\<close>. The handler shows the error alert and the stored row is as before,
  whatever \<open>available\<close> is.
\<close>

theorem updateDriverAvailability_existing_row_fails:
  assumes "list_ex (\<lambda>r. r ''driver_id'' = JStr uid) (driver_locations d)"
    and "\<not> list_ex (\<lambda>r. r ''id'' = JStr (gen_id env)) (driver_locations d)"
    and "available \<longrightarrow> position \<noteq> None"
  shows "updateDriverAvailability (Some uid) True position now env available d =
           ([Remote (Upsert ''driver_locations''
               (availability_payload uid available (if available then position else None) now)
               None),
             ConsoleError ''Error updating driver availability:'',
             Alert ''Error'' ''Failed to update availability status''], d)"
proof -
  from upsert_existing_driver_rejected[OF assms(1,2)]
  obtain e where "upsert_driver_locations uid env
      (availability_payload uid available (if available then position else None) now) None
      (driver_locations d) = Inl e"
    by blast
  then show ?thesis
    using assms(3)
    by (auto simp: updateDriverAvailability_def remote_def Let_def split: net_outcome.splits)
qed

theorem updateDriverAvailability_existing_row_fails_witness:
  "list_ex (\<lambda>r. r ''driver_id'' = JStr ''D'') [ex_location ''g1'' ''D'' 45.5 (-73.6) True] \<and>
   \<not> list_ex (\<lambda>r. r ''id'' = JStr (gen_id (ex_env ''g2'')))
        [ex_location ''g1'' ''D'' 45.5 (-73.6) True] \<and>
   updateDriverAvailability (Some ''D'') True None ''2025-07-24T21:00:00Z'' (ex_env ''g2'') False
       (ex_locations [ex_location ''g1'' ''D'' 45.5 (-73.6) True]) =
     ([Remote (Upsert ''driver_locations''
         [(''driver_id'', JStr ''D''), (''is_available'', JBool False),
          (''updated_at'', JStr ''2025-07-24T21:00:00Z'')] None),
       ConsoleError ''Error updating driver availability:'',
       Alert ''Error'' ''Failed to update availability status''],
      ex_locations [ex_location ''g1'' ''D'' 45.5 (-73.6) True])"
proof -
  let ?d = "ex_locations [ex_location ''g1'' ''D'' 45.5 (-73.6) True]"
  have 1: "list_ex (\<lambda>r. r ''driver_id'' = JStr ''D'') (driver_locations ?d)"
    by (simp add: example_simps)
  have 2: "\<not> list_ex (\<lambda>r. r ''id'' = JStr (gen_id (ex_env ''g2''))) (driver_locations ?d)"
    by (simp add: example_simps)
  have 3: "False \<longrightarrow> (None :: (real \<times> real) option) \<noteq> None" by simp
  from updateDriverAvailability_existing_row_fails[OF 1 2 3, of "''2025-07-24T21:00:00Z''"] 1 2
  show ?thesis
    by (simp add: availability_payload_def ex_locations_def)
qed

section \<open>Properties: booking\<close>

lemma remote_insert_service_requests:
  "remote uid env (Insert ''service_requests'' vals) d = (res, d') \<Longrightarrow>
     deliveries d' = deliveries d \<and> driver_locations d' = driver_locations d \<and>
     (service_requests d' = service_requests d \<or>
      insert_service_requests uid env vals (service_requests d) = Inr (service_requests d'))"
  by (auto simp: remote_def split: net_outcome.splits sum.splits)

lemma handleBookService_cases:
  "handleBookService user role service env d = (eff, d') \<Longrightarrow>
     (eff = [] \<and> d' = d) \<or>
     (eff = [Alert ''Access Denied'' ''Only clients can book services''] \<and> d' = d) \<or>
     (\<exists>uid sv res rest. user = Some uid \<and> service = Some sv \<and> role = Some ''client'' \<and>
        remote uid env (handleBookService_request uid sv) d = (res, d') \<and>
        eff = Remote (handleBookService_request uid sv) # rest \<and>
        \<not> list_ex (\<lambda>e. \<exists>q. e = Remote q) rest)"
  by (auto simp: handleBookService_def Let_def split: option.splits if_splits prod.splits)

text \<open>
  C5 as stated fails: booking a service that requires delivery inserts the service request
  and nothing else; no delivery exists afterwards.
\<close>

theorem handleBookService_requires_delivery_counterexample:
  "requires_delivery ex_service \<and>
   fst (handleBookService (Some ''C'') (Some ''client'') (Some ex_service) (ex_env ''g1'') (ex_db []))
     = [Remote (handleBookService_request ''C'' ex_service),
        Alert ''Success'' ''Service request sent successfully!''] \<and>
   (\<exists>vals. handleBookService_request ''C'' ex_service = Insert ''service_requests'' vals) \<and>
   deliveries (snd (handleBookService (Some ''C'') (Some ''client'') (Some ex_service)
        (ex_env ''g1'') (ex_db []))) = [] \<and>
   map (\<lambda>r. (r ''id'', r ''client_id'', r ''service_id''))
     (service_requests (snd (handleBookService (Some ''C'') (Some ''client'') (Some ex_service)
        (ex_env ''g1'') (ex_db [])))) = [(JStr ''g1'', JStr ''C'', JStr ''svc1'')]"
  by (simp add: handleBookService_def handleBookService_request_def remote_def
      insert_service_requests_def service_requests_defaults_def service_request_statuses_def
      example_simps Let_def)

text \<open>
  C5, amended. A booking issues at most one remote call, the insert into
  \<open>service_requests\<close>, and leaves the \<open>deliveries\<close> table as it was, whether or not
  the service requires delivery: the request does not depend on \<open>requires_delivery\<close>.
\<close>

theorem handleBookService_creates_no_delivery:
  "deliveries (snd (handleBookService user role service env d)) = deliveries d \<and>
   (filter (\<lambda>e. \<exists>q. e = Remote q) (fst (handleBookService user role service env d)) = [] \<or>
    (\<exists>uid sv. user = Some uid \<and> service = Some sv \<and>
       filter (\<lambda>e. \<exists>q. e = Remote q) (fst (handleBookService user role service env d)) =
         [Remote (handleBookService_request uid sv)])) \<and>
   (\<exists>vals. handleBookService_request uid sv = Insert ''service_requests'' vals) \<and>
   handleBookService_request uid (sv\<lparr>requires_delivery := b\<rparr>) = handleBookService_request uid sv"
proof -
  obtain eff d' where h: "handleBookService user role service env d = (eff, d')"
    by (cases "handleBookService user role service env d") blast
  have filt: "\<And>rest. \<not> list_ex (\<lambda>e. \<exists>q. e = Remote q) rest \<Longrightarrow>
                filter (\<lambda>e. \<exists>q. e = Remote q) rest = []"
    by (auto simp: list_ex_iff filter_empty_conv)
  from handleBookService_cases[OF h]
  have 1: "deliveries d' = deliveries d"
    by (auto simp: handleBookService_request_def dest: remote_insert_service_requests)
  from handleBookService_cases[OF h]
  have 2: "filter (\<lambda>e. \<exists>q. e = Remote q) eff = [] \<or>
    (\<exists>uid sv. user = Some uid \<and> service = Some sv \<and>
       filter (\<lambda>e. \<exists>q. e = Remote q) eff = [Remote (handleBookService_request uid sv)])"
    by (auto simp: filt)
  show ?thesis
    using 1 2 by (simp add: h handleBookService_request_def)
qed

lemma insert_service_requests_fresh:
  assumes "\<not> list_ex (\<lambda>r. r ''id'' = JStr (gen_id env)) tbl"
  shows "\<exists>vals. handleBookService_request uid sv = Insert ''service_requests'' vals \<and>
           ''id'' \<notin> fst ` set vals \<and>
           insert_service_requests uid env vals tbl =
             Inr (tbl @ [assign vals (service_requests_defaults env)]) \<and>
           assign vals (service_requests_defaults env) ''id'' = JStr (gen_id env) \<and>
           assign vals (service_requests_defaults env) ''client_id'' = JStr uid \<and>
           assign vals (service_requests_defaults env) ''service_id'' = JStr (sid sv)"
  using assms
  by (auto simp: handleBookService_request_def insert_service_requests_def
      service_requests_defaults_def service_request_statuses_def Let_def)

lemma handleBookService_inserts:
  assumes "net env \<noteq> RequestLost"
    and "\<not> list_ex (\<lambda>r. r ''id'' = JStr (gen_id env)) (service_requests d)"
  shows "\<exists>r. service_requests (snd (handleBookService (Some uid) (Some ''client'') (Some sv) env d))
             = service_requests d @ [r] \<and>
           r ''id'' = JStr (gen_id env) \<and> r ''client_id'' = JStr uid \<and>
           r ''service_id'' = JStr (sid sv)"
proof -
  from insert_service_requests_fresh[OF assms(2), of uid sv]
  obtain vals where v: "handleBookService_request uid sv = Insert ''service_requests'' vals"
    and i: "insert_service_requests uid env vals (service_requests d) =
             Inr (service_requests d @ [assign vals (service_requests_defaults env)])"
    and p: "assign vals (service_requests_defaults env) ''id'' = JStr (gen_id env)"
       "assign vals (service_requests_defaults env) ''client_id'' = JStr uid"
       "assign vals (service_requests_defaults env) ''service_id'' = JStr (sid sv)"
    by blast
  have "service_requests (snd (handleBookService (Some uid) (Some ''client'') (Some sv) env d))
             = service_requests d @ [assign vals (service_requests_defaults env)]"
    using assms(1) by (simp add: handleBookService_def v i remote_def Let_def split: net_outcome.splits)
  with p show ?thesis by blast
qed

text \<open>
  C9. The payload of a booking has no \<open>id\<close> and nothing else that identifies the attempt,
  and nothing is read before the insert. So booking twice with the same user and service,
  the server drawing two different fresh ids, appends two rows that differ in their id and
  agree in client and service. This is also so when the reply to the first call is lost and
  the user, shown an error, books again.
\<close>

theorem handleBookService_twice_two_rows:
  assumes "net env1 \<noteq> RequestLost" and "net env2 \<noteq> RequestLost"
    and "\<not> list_ex (\<lambda>r. r ''id'' = JStr (gen_id env1)) (service_requests d)"
    and "\<not> list_ex (\<lambda>r. r ''id'' = JStr (gen_id env2)) (service_requests d)"
    and "gen_id env1 \<noteq> gen_id env2"
  shows "(\<exists>r1 r2.
           service_requests
             (snd (handleBookService (Some uid) (Some ''client'') (Some sv) env2
               (snd (handleBookService (Some uid) (Some ''client'') (Some sv) env1 d)))) =
             service_requests d @ [r1, r2] \<and>
           r1 ''id'' \<noteq> r2 ''id'' \<and>
           r1 ''client_id'' = JStr uid \<and> r2 ''client_id'' = JStr uid \<and>
           r1 ''service_id'' = JStr (sid sv) \<and> r2 ''service_id'' = JStr (sid sv)) \<and>
         (\<exists>vals. handleBookService_request uid sv = Insert ''service_requests'' vals \<and>
           ''id'' \<notin> fst ` set vals) \<and>
         (net env1 = ReplyLost \<longrightarrow>
            fst (handleBookService (Some uid) (Some ''client'') (Some sv) env1 d) =
              [Remote (handleBookService_request uid sv),
               ConsoleError ''Error booking service:'',
               Alert ''Error'' ''Failed to book service''])"
proof -
  let ?d1 = "snd (handleBookService (Some uid) (Some ''client'') (Some sv) env1 d)"
  from handleBookService_inserts[OF assms(1,3), of uid sv]
  obtain r1 where 1: "service_requests ?d1 = service_requests d @ [r1]"
    and p1: "r1 ''id'' = JStr (gen_id env1)" "r1 ''client_id'' = JStr uid"
      "r1 ''service_id'' = JStr (sid sv)"
    by blast
  have fresh2: "\<not> list_ex (\<lambda>r. r ''id'' = JStr (gen_id env2)) (service_requests ?d1)"
    using assms(4,5) by (simp add: 1 p1)
  from handleBookService_inserts[OF assms(2) fresh2, of uid sv]
  obtain r2 where 2: "service_requests
             (snd (handleBookService (Some uid) (Some ''client'') (Some sv) env2 ?d1)) =
             service_requests ?d1 @ [r2]"
    and p2: "r2 ''id'' = JStr (gen_id env2)" "r2 ''client_id'' = JStr uid"
      "r2 ''service_id'' = JStr (sid sv)"
    by blast
  have a: "\<exists>r1 r2.
           service_requests
             (snd (handleBookService (Some uid) (Some ''client'') (Some sv) env2 ?d1)) =
             service_requests d @ [r1, r2] \<and>
           r1 ''id'' \<noteq> r2 ''id'' \<and>
           r1 ''client_id'' = JStr uid \<and> r2 ''client_id'' = JStr uid \<and>
           r1 ''service_id'' = JStr (sid sv) \<and> r2 ''service_id'' = JStr (sid sv)"
    using 1 2 p1 p2 assms(5) by (intro exI[of _ r1] exI[of _ r2]) simp
  have b: "\<exists>vals. handleBookService_request uid sv = Insert ''service_requests'' vals \<and>
           ''id'' \<notin> fst ` set vals"
    by (simp add: handleBookService_request_def)
  have c: "net env1 = ReplyLost \<longrightarrow>
            fst (handleBookService (Some uid) (Some ''client'') (Some sv) env1 d) =
              [Remote (handleBookService_request uid sv),
               ConsoleError ''Error booking service:'',
               Alert ''Error'' ''Failed to book service'']"
    by (auto simp: handleBookService_def remote_def Let_def split: sum.splits)
  from a b c show ?thesis by blast
qed

theorem handleBookService_twice_two_rows_witness:
  "net ((ex_env ''g1'')\<lparr>net := ReplyLost\<rparr>) = ReplyLost \<and>
   net (ex_env ''g2'') \<noteq> RequestLost \<and>
   gen_id ((ex_env ''g1'')\<lparr>net := ReplyLost\<rparr>) \<noteq> gen_id (ex_env ''g2'') \<and>
   fst (handleBookService (Some ''C'') (Some ''client'') (Some ex_service)
          ((ex_env ''g1'')\<lparr>net := ReplyLost\<rparr>) (ex_db [])) =
     [Remote (handleBookService_request ''C'' ex_service),
      ConsoleError ''Error booking service:'', Alert ''Error'' ''Failed to book service''] \<and>
   (\<exists>r1 r2.
      service_requests
        (snd (handleBookService (Some ''C'') (Some ''client'') (Some ex_service) (ex_env ''g2'')
          (snd (handleBookService (Some ''C'') (Some ''client'') (Some ex_service)
                 ((ex_env ''g1'')\<lparr>net := ReplyLost\<rparr>) (ex_db []))))) = [r1, r2] \<and>
      r1 ''id'' \<noteq> r2 ''id'' \<and>
      r1 ''client_id'' = JStr ''C'' \<and> r2 ''client_id'' = JStr ''C'' \<and>
      r1 ''service_id'' = JStr ''svc1'' \<and> r2 ''service_id'' = JStr ''svc1'')"
proof -
  let ?e1 = "(ex_env ''g1'')\<lparr>net := ReplyLost\<rparr>"
  have h: "net ?e1 \<noteq> RequestLost" "net (ex_env ''g2'') \<noteq> RequestLost"
    "\<not> list_ex (\<lambda>r. r ''id'' = JStr (gen_id ?e1)) (service_requests (ex_db []))"
    "\<not> list_ex (\<lambda>r. r ''id'' = JStr (gen_id (ex_env ''g2''))) (service_requests (ex_db []))"
    "gen_id ?e1 \<noteq> gen_id (ex_env ''g2'')"
    by (simp_all add: example_simps)
  have n: "net ?e1 = ReplyLost" by simp
  from handleBookService_twice_two_rows[OF h, of "''C''" ex_service] n h
  show ?thesis
    by (simp add: example_simps)
qed

section \<open>Properties: the offline queue\<close>

text \<open>
  No path of \<open>executeAction\<close> throws, so the \<open>catch\<close> block of the loop is never
  entered. The index of the loop stays in range, each object of the copied queue is passed
  to \<open>executeAction\<close> once, from the last to the first, and is then removed from the copy.
\<close>

lemma executeAction_resolves: "snd (executeAction a)"
  by (simp add: executeAction_def)

lemma processLoop_executes_all:
  "i \<le> length uq \<Longrightarrow>
   processLoop i (h, uq, tr) =
     Some (h, drop i uq,
           tr @ concat (map (\<lambda>r. ExecuteAction r # fst (executeAction (h r))) (rev (take i uq))))"
proof (induction i arbitrary: uq tr)
  case 0
  then show ?case by simp
next
  case (Suc i)
  then have lt: "i < length uq" by simp
  have le: "i \<le> length (splice1 i uq)" using lt by (simp add: splice1_def min_def)
  have tk: "take i (splice1 i uq) = take i uq" and dr: "drop i (splice1 i uq) = drop (Suc i) uq"
    using lt by (simp_all add: splice1_def min_def)
  have "processLoop (Suc i) (h, uq, tr) =
          processLoop i (h, splice1 i uq,
            tr @ [ExecuteAction (uq ! i)] @ fst (executeAction (h (uq ! i))))"
    using lt by (simp add: Let_def executeAction_resolves)
  also have "\<dots> = Some (h, drop (Suc i) uq,
           (tr @ [ExecuteAction (uq ! i)] @ fst (executeAction (h (uq ! i)))) @
           concat (map (\<lambda>r. ExecuteAction r # fst (executeAction (h r))) (rev (take i uq))))"
    by (rule Suc.IH[OF le, unfolded tk dr])
  also have "\<dots> = Some (h, drop (Suc i) uq,
           tr @ concat (map (\<lambda>r. ExecuteAction r # fst (executeAction (h r)))
                          (rev (take (Suc i) uq))))"
    using lt by (simp add: take_Suc_conv_app_nth)
  finally show ?case .
qed

text \<open>
  So a run of \<open>processQueue\<close> that does not leave at once executes every action of the
  queue of its closure and saves the empty queue, whatever the state holds by then.
\<close>

lemma processQueue_executes_all:
  "cq \<noteq> [] \<Longrightarrow>
   processQueue ok cq False st =
     Some (concat (map (\<lambda>r. ExecuteAction r # fst (executeAction (heap st r))) (rev cq)) @
             fst (saveQueue ok [] (st\<lparr>isProcessing := True\<rparr>)),
           (snd (saveQueue ok [] (st\<lparr>isProcessing := True\<rparr>)))\<lparr>isProcessing := False\<rparr>)"
  by (simp add: processQueue_def processLoop_executes_all Let_def)

text \<open>
  C10, at a queue that holds one action, the device online and no run in progress.

  First, every save succeeding: \<open>addToQueue\<close> is called four times through the function of
  that render, as by a handler that queues four actions in a row. Each call saves the
  queue of its closure with the new action appended and then runs \<open>processQueue\<close> of the
  same closure, which executes the one action of that queue again and saves the empty
  queue. The action is executed four times, none of the attempts having failed; the four
  new actions are never executed and are gone from the queue and from the stored item.

  Second, every save failing: \<open>saveQueue\<close> logs the error and leaves the \<open>queue\<close> of the
  state and the stored item as they were, so the action that has been executed stays queued
  and each run of the effect, connectivity going away and coming back and every render
  seeing the same queue, executes it again: four times in four runs.
\<close>

theorem offline_queue_action_executed_four_times:
  "MAX_RETRY_COUNT = 3 \<and>
   map_option (\<lambda>(tr, st'). (tr, queue st', storage st'))
     (run [Add True [0] False ''SEND_MESSAGE'' (JStr ''m1'') 1753387260000 1753387260000 True True,
           Add True [0] False ''SEND_MESSAGE'' (JStr ''m2'') 1753387260001 1753387260001 True True,
           Add True [0] False ''SEND_MESSAGE'' (JStr ''m3'') 1753387260002 1753387260002 True True,
           Add True [0] False ''SEND_MESSAGE'' (JStr ''m4'') 1753387260003 1753387260003 True True]
        (ex_hook 0)) =
     Some ([ExecuteAction 0, ExecuteAction 0, ExecuteAction 0, ExecuteAction 0], [], Some []) \<and>
   map_option (\<lambda>(tr, st'). (tr, queue st', storage st'))
     (run [Effect True [0] False False, Effect False [0] False False,
           Effect True [0] False False, Effect False [0] False False,
           Effect True [0] False False, Effect False [0] False False,
           Effect True [0] False False] (ex_hook 0)) =
     Some ([ExecuteAction 0, ConsoleError ''Error saving offline queue:'',
            ExecuteAction 0, ConsoleError ''Error saving offline queue:'',
            ExecuteAction 0, ConsoleError ''Error saving offline queue:'',
            ExecuteAction 0, ConsoleError ''Error saving offline queue:''],
           [0], Some [ex_action 0])"
  by (simp add: addToQueue_def queueEffect_def processQueue_def saveQueue_def executeAction_def
      splice1_def MAX_RETRY_COUNT_def example_simps Let_def)


end
